theory Spec2Isabelle
  imports Complex_Main "HOL-Library.AList"
begin

section \<open>Numbers, dates, identifiers and collections\<close>

text \<open>
  The dealership backend stores amounts as JavaScript numbers. They are modelled as exact
  rationals: a request body is JSON, so every number that enters is finite, and sums,
  differences and products of finite numbers are taken exactly (the rounding of doubles is
  not modelled). The one operation that leaves the finite numbers is the division in the
  profit percentage of a sale, which JavaScript evaluates to an infinity or to NaN when
  the buy price is zero; \<open>jsnum\<close> keeps these three values apart from the finite ones.

  A date is its \<open>getTime()\<close> value, an ObjectId is a natural number, and a MongoDB
  collection is an association list from ids to documents in insertion order. Fields that
  exist in more than one schema carry the schema's initial as a prefix (\<open>b_\<close> Bike,
  \<open>c_\<close> Customer, \<open>s_\<close> Sale, \<open>p_\<close> Payment, \<open>l_\<close> payment log). Schema fields that no operation
  below reads (colour, mileage, documents, email, notes of a bike and the like) are left
  out of the records.
\<close>

type_synonym oid = nat
type_synonym date = int

datatype jsnum = Fin rat | PosInf | NegInf | NaN

definition js_div :: "rat \<Rightarrow> rat \<Rightarrow> jsnum" where
  "js_div a b =
     (if b \<noteq> 0 then Fin (a / b)
      else if 0 < a then PosInf
      else if a < 0 then NegInf
      else NaN)"

fun js_times :: "jsnum \<Rightarrow> rat \<Rightarrow> jsnum" where
  "js_times (Fin x) c = Fin (x * c)"
| "js_times PosInf c = (if 0 < c then PosInf else if c < 0 then NegInf else NaN)"
| "js_times NegInf c = (if 0 < c then NegInf else if c < 0 then PosInf else NaN)"
| "js_times NaN c = NaN"


definition Math_ceil :: "rat \<Rightarrow> int" where
  "Math_ceil x = \<lceil>x\<rceil>"

datatype 'a response =
    Success 'a            \<comment> \<open>\<open>res.json(...)\<close>, status 200\<close>
  | Created 'a            \<comment> \<open>\<open>res.status(201).json(...)\<close>\<close>
  | BadRequest string     \<comment> \<open>status 400 with its message\<close>
  | NotFound string       \<comment> \<open>status 404 with its message\<close>
  | ServerError           \<comment> \<open>the handler's \<open>catch\<close>: status 500, 'Server error'\<close>

definition is_error :: "'a response \<Rightarrow> bool" where
  "is_error r = (case r of Success _ \<Rightarrow> False | Created _ \<Rightarrow> False | _ \<Rightarrow> True)"

text \<open>The sanitizer \<open>trim()\<close> followed by \<open>notEmpty()\<close> of the route validators.\<close>

definition is_ws :: "char \<Rightarrow> bool" where
  "is_ws c = (c \<in> set [CHR '' '', CHR 0x09, CHR 0x0A, CHR 0x0B, CHR 0x0C, CHR 0x0D])"

definition trim :: "string \<Rightarrow> string" where
  "trim s = rev (dropWhile is_ws (rev (dropWhile is_ws s)))"

definition notEmpty :: "string \<Rightarrow> bool" where
  "notEmpty s = (s \<noteq> [])"

definition paymentModes :: "string list" where
  "paymentModes = [''Cash'', ''UPI'', ''Card'', ''Bank Transfer'', ''Cheque'']"

section \<open>models/Customer.js\<close>

datatype customer_type = Regular | Premium | VIP

record Customer =
  c_name :: string
  c_phone :: string
  c_address :: string
  c_totalSpent :: rat
  c_totalBikesBought :: rat
  c_lastPurchaseDate :: "date option"
  c_customerType :: customer_type

text \<open>\<open>customerSchema.pre('save')\<close>\<close>

definition customerPreSave :: "Customer \<Rightarrow> Customer" where
  "customerPreSave c =
     (if 500000 \<le> c_totalSpent c then c\<lparr>c_customerType := VIP\<rparr>
      else if 200000 \<le> c_totalSpent c then c\<lparr>c_customerType := Premium\<rparr>
      else c\<lparr>c_customerType := Regular\<rparr>)"

text \<open>The schema's validators: required strings, \<open>min: 0\<close> on the two aggregates.\<close>

definition customer_valid :: "Customer \<Rightarrow> bool" where
  "customer_valid c =
     (trim (c_name c) \<noteq> [] \<and> trim (c_phone c) \<noteq> [] \<and> trim (c_address c) \<noteq> [] \<and>
      0 \<le> c_totalSpent c \<and> 0 \<le> c_totalBikesBought c)"

section \<open>models/Payment.js\<close>

datatype payment_status = pending | partial | completed

record PaymentLog =
  l_amount :: rat
  l_paymentDate :: date
  l_paymentMethod :: string
  l_notes :: "string option"
  l_receivedBy :: oid

record Payment =
  p_saleId :: oid
  p_bikeId :: oid
  p_customerId :: oid
  p_totalAmount :: rat
  p_paidAmount :: rat
  p_remainingAmount :: rat
  p_status :: payment_status
  p_paymentLogs :: "PaymentLog list"
  p_dueDate :: "date option"
  p_notes :: "string option"

text \<open>\<open>paymentSchema.pre('save')\<close>\<close>

definition paymentPreSave :: "Payment \<Rightarrow> Payment" where
  "paymentPreSave p =
     (let p1 = p\<lparr>p_remainingAmount := p_totalAmount p - p_paidAmount p\<rparr>
      in if p_paidAmount p1 = 0 then p1\<lparr>p_status := pending\<rparr>
         else if p_paidAmount p1 < p_totalAmount p1 then p1\<lparr>p_status := partial\<rparr>
         else p1\<lparr>p_status := completed\<rparr>)"

definition paymentLog_valid :: "PaymentLog \<Rightarrow> bool" where
  "paymentLog_valid l = (0 \<le> l_amount l \<and> l_paymentMethod l \<in> set paymentModes)"

text \<open>
  The schema's validators. Mongoose validates a document before it runs the schema's own
  \<open>pre('save')\<close> hooks, so \<open>min: 0\<close> on \<open>remainingAmount\<close> sees the value the caller left in
  the document, not the one the hook computes.
\<close>

definition payment_valid :: "Payment \<Rightarrow> bool" where
  "payment_valid p =
     (0 \<le> p_totalAmount p \<and> 0 \<le> p_paidAmount p \<and> 0 \<le> p_remainingAmount p \<and>
      list_all paymentLog_valid (p_paymentLogs p))"

section \<open>models/Bike.js\<close>

datatype bike_status = available | sold | reserved

record Bike =
  b_bikeNumber :: string
  b_brand :: string
  b_model :: string
  b_year :: int
  b_buyPrice :: rat
  b_sellPrice :: "rat option"
  b_profit :: "rat option"
  b_profitPercent :: "jsnum option"
  b_status :: bike_status
  b_purchaseDate :: date
  b_sellDate :: "date option"
  b_daysToSell :: "int option"
  b_conditionRating :: "rat option"
  b_saleId :: "oid option"

definition brands :: "string list" where
  "brands = [''Honda'', ''Yamaha'', ''Bajaj'', ''TVS'', ''Hero'', ''KTM'', ''Royal Enfield'',
             ''Suzuki'', ''Kawasaki'']"

text \<open>
  \<open>bikeSchema.pre('save')\<close>. The first test is JavaScript truthiness of two numbers: a
  sell price that is \<open>null\<close> or zero, or a buy price of zero, skips the assignment. The
  second tests two \<open>Date\<close> objects, which are truthy whenever they are present.
\<close>

definition bikePreSave :: "Bike \<Rightarrow> Bike" where
  "bikePreSave b =
     (let b1 = (case b_sellPrice b of
                  Some sp \<Rightarrow>
                    if sp \<noteq> 0 \<and> b_buyPrice b \<noteq> 0
                    then b\<lparr>b_profit := Some (sp - b_buyPrice b),
                           b_profitPercent :=
                             Some (js_times (js_div (sp - b_buyPrice b) (b_buyPrice b)) 100)\<rparr>
                    else b
                | None \<Rightarrow> b)
      in case b_sellDate b1 of
           Some sd \<Rightarrow>
             b1\<lparr>b_daysToSell :=
                  Some (Math_ceil (of_int (sd - b_purchaseDate b1) / (1000 * 3600 * 24)))\<rparr>
         | None \<Rightarrow> b1)"

text \<open>
  The schema's validators; \<open>maxYear\<close> is \<open>new Date().getFullYear() + 1\<close> as evaluated when
  the schema was loaded. A NaN in a number field fails Mongoose's cast.
\<close>

definition bike_valid :: "int \<Rightarrow> Bike \<Rightarrow> bool" where
  "bike_valid maxYear b =
     (trim (b_bikeNumber b) \<noteq> [] \<and> b_brand b \<in> set brands \<and> trim (b_model b) \<noteq> [] \<and>
      1990 \<le> b_year b \<and> b_year b \<le> maxYear \<and> 0 \<le> b_buyPrice b \<and>
      b_profitPercent b \<noteq> Some NaN \<and>
      (case b_conditionRating b of None \<Rightarrow> True | Some r \<Rightarrow> 1 \<le> r \<and> r \<le> 10))"

section \<open>models/Sale.js\<close>

record Sale =
  s_saleNumber :: string
  s_bikeId :: oid
  s_customerId :: oid
  s_buyerName :: string
  s_buyerPhone :: string
  s_buyerAddress :: string
  s_sellingPrice :: rat
  s_discount :: rat
  s_finalAmount :: rat
  s_profit :: rat
  s_profitPercent :: jsnum
  s_paymentMode :: string
  s_invoiceNumber :: string
  s_invoicePath :: "string option"
  s_soldBy :: oid

text \<open>
  The schema's validators (its \<open>pre('save')\<close> hook has an empty body). \<open>profitPercent\<close> is
  required, and a NaN fails the cast to Number, which leaves the path unset.
\<close>

definition sale_valid :: "Sale \<Rightarrow> bool" where
  "sale_valid s =
     (s_saleNumber s \<noteq> [] \<and> s_invoiceNumber s \<noteq> [] \<and>
      trim (s_buyerName s) \<noteq> [] \<and> trim (s_buyerPhone s) \<noteq> [] \<and>
      trim (s_buyerAddress s) \<noteq> [] \<and>
      0 \<le> s_sellingPrice s \<and> 0 \<le> s_discount s \<and> 0 \<le> s_finalAmount s \<and>
      s_profitPercent s \<noteq> NaN \<and> s_paymentMode s \<in> set paymentModes)"

section \<open>The entity store and \<open>save()\<close>\<close>

record Store =
  bikes :: "(oid \<times> Bike) list"
  customers :: "(oid \<times> Customer) list"
  sales :: "(oid \<times> Sale) list"
  payments :: "(oid \<times> Payment) list"

text \<open>
  What the handlers read from outside the request: the clock, the draw of
  \<open>Math.floor(Math.random() * 1000)\<close>, the year in which the process loaded its schemas,
  whether writing the invoice file succeeds, and the authenticated user.
\<close>

record Env =
  e_now :: date
  e_year :: nat
  e_month :: nat
  e_random :: nat
  e_bootYear :: nat
  e_pdfOk :: bool
  e_user :: oid

text \<open>A new ObjectId is an id that no stored document has.\<close>

definition newObjectId :: "Store \<Rightarrow> oid" where
  "newObjectId st =
     Suc (foldr max (map fst (bikes st) @ map fst (customers st) @
                     map fst (sales st) @ map fst (payments st)) 0)"

text \<open>
  \<open>doc.save()\<close>: validation, then the schema's \<open>pre('save')\<close> hook, then the write, which
  replaces the document with that id or appends a new one. \<open>None\<close> is the rejected promise
  (a validation error or a duplicate key), which every handler turns into status 500.
  The result carries the document as the hook left it, as the in-memory object does.
\<close>

definition customer_save :: "Store \<Rightarrow> oid \<Rightarrow> Customer \<Rightarrow> (Customer \<times> Store) option" where
  "customer_save st cid c =
     (if customer_valid c
      then let c' = customerPreSave c
           in Some (c', st\<lparr>customers := AList.update cid c' (customers st)\<rparr>)
      else None)"

definition payment_save :: "Store \<Rightarrow> oid \<Rightarrow> Payment \<Rightarrow> (Payment \<times> Store) option" where
  "payment_save st pid p =
     (if payment_valid p
      then let p' = paymentPreSave p
           in Some (p', st\<lparr>payments := AList.update pid p' (payments st)\<rparr>)
      else None)"

definition bike_save :: "Env \<Rightarrow> Store \<Rightarrow> oid \<Rightarrow> Bike \<Rightarrow> (Bike \<times> Store) option" where
  "bike_save env st bid b =
     (if bike_valid (int (e_bootYear env) + 1) b
      then let b' = bikePreSave b
           in Some (b', st\<lparr>bikes := AList.update bid b' (bikes st)\<rparr>)
      else None)"

text \<open>
  Saving a sale: the unique indexes on \<open>saleNumber\<close> and \<open>invoiceNumber\<close> reject a document
  whose number another stored sale already has.
\<close>

definition sale_save :: "Store \<Rightarrow> oid \<Rightarrow> Sale \<Rightarrow> (Sale \<times> Store) option" where
  "sale_save st sid s =
     (if sale_valid s \<and>
         \<not> list_ex (\<lambda>(i, s'). i \<noteq> sid \<and>
               (s_saleNumber s' = s_saleNumber s \<or> s_invoiceNumber s' = s_invoiceNumber s))
             (sales st)
      then Some (s, st\<lparr>sales := AList.update sid s (sales st)\<rparr>)
      else None)"

section \<open>The sales routes: \<open>router.post('/')\<close>\<close>

text \<open>\<open>String(n)\<close> of a non-negative integer, and \<open>padStart\<close>.\<close>

definition digit :: "nat \<Rightarrow> char" where
  "digit n = char_of (48 + n)"

fun String_of :: "nat \<Rightarrow> string" where
  "String_of n = (if n < 10 then [digit n] else String_of (n div 10) @ [digit (n mod 10)])"

declare String_of.simps [simp del]

definition padStart :: "nat \<Rightarrow> char \<Rightarrow> string \<Rightarrow> string" where
  "padStart n c s = replicate (n - length s) c @ s"

text \<open>
  The request body. \<open>isMongoId\<close> is the type of \<open>r_bikeId\<close>; \<open>discount\<close> has no validator and
  defaults to 0 when the body leaves it out.
\<close>

record SaleReq =
  r_bikeId :: oid
  r_buyerName :: string
  r_buyerPhone :: string
  r_buyerAddress :: string
  r_sellingPrice :: rat
  r_discount :: "rat option"
  r_paymentMode :: string

definition saleReq_valid :: "SaleReq \<Rightarrow> bool" where
  "saleReq_valid req =
     (notEmpty (trim (r_buyerName req)) \<and> notEmpty (trim (r_buyerPhone req)) \<and>
      notEmpty (trim (r_buyerAddress req)) \<and> 0 \<le> r_sellingPrice req \<and>
      r_paymentMode req \<in> set paymentModes)"

text \<open>\<open>// Find or create customer\<close>: \<open>Customer.findOne({ phone })\<close>, else a new document.\<close>

definition findOrCreateCustomer ::
  "Store \<Rightarrow> string \<Rightarrow> string \<Rightarrow> string \<Rightarrow> (oid \<times> Customer \<times> Store) option" where
  "findOrCreateCustomer st buyerName buyerPhone buyerAddress =
     (case find (\<lambda>(i, c). c_phone c = buyerPhone) (customers st) of
        Some (cid, customer) \<Rightarrow> Some (cid, customer, st)
      | None \<Rightarrow>
          let cid = newObjectId st;
              customer = \<lparr>c_name = buyerName, c_phone = buyerPhone, c_address = buyerAddress,
                          c_totalSpent = 0, c_totalBikesBought = 0,
                          c_lastPurchaseDate = None, c_customerType = Regular\<rparr>
          in (case customer_save st cid customer of
                None \<Rightarrow> None
              | Some (customer1, st1) \<Rightarrow> Some (cid, customer1, st1)))"

text \<open>The destructuring default \<open>discount = 0\<close>.\<close>

definition discountOf :: "SaleReq \<Rightarrow> rat" where
  "discountOf req = (case r_discount req of None \<Rightarrow> 0 | Some d \<Rightarrow> d)"

text \<open>
  \<open>// Calculate profit\<close> up to \<open>new Sale({...})\<close>: the document the handler builds from
  the (sanitized) body, the bike it read and the customer's id.
\<close>

definition newSale :: "Env \<Rightarrow> SaleReq \<Rightarrow> Bike \<Rightarrow> oid \<Rightarrow> Sale" where
  "newSale env req bike cid =
     (let sellingPrice = r_sellingPrice req;
          discount = discountOf req;
          profit = sellingPrice - discount - b_buyPrice bike;
          profitPercent = js_times (js_div profit (b_buyPrice bike)) 100;
          year = String_of (e_year env);
          month = padStart 2 CHR ''0'' (String_of (e_month env));
          random = padStart 3 CHR ''0'' (String_of (e_random env));
          saleNumber = ''SAL-'' @ year @ month @ ''-'' @ random;
          invoiceNumber = ''SB-'' @ year @ ''-'' @ random;
          finalAmount = sellingPrice - discount
      in \<lparr>s_saleNumber = saleNumber, s_bikeId = r_bikeId req, s_customerId = cid,
          s_buyerName = trim (r_buyerName req), s_buyerPhone = trim (r_buyerPhone req),
          s_buyerAddress = trim (r_buyerAddress req),
          s_sellingPrice = sellingPrice, s_discount = discount,
          s_finalAmount = finalAmount, s_profit = profit,
          s_profitPercent = profitPercent, s_paymentMode = r_paymentMode req,
          s_invoiceNumber = invoiceNumber, s_invoicePath = None,
          s_soldBy = e_user env\<rparr>)"

text \<open>\<open>// Update bike\<close>: the six assignments before \<open>bike.save()\<close>.\<close>

definition soldBike :: "Env \<Rightarrow> SaleReq \<Rightarrow> Bike \<Rightarrow> oid \<Rightarrow> Bike" where
  "soldBike env req bike sid =
     (let profit = r_sellingPrice req - discountOf req - b_buyPrice bike;
          profitPercent = js_times (js_div profit (b_buyPrice bike)) 100
      in bike\<lparr>b_sellPrice := Some (r_sellingPrice req),
              b_profit := Some profit,
              b_profitPercent := Some profitPercent,
              b_status := sold,
              b_sellDate := Some (e_now env),
              b_saleId := Some sid\<rparr>)"

text \<open>\<open>// Update customer\<close>: the three assignments before \<open>customer.save()\<close>.\<close>

definition customerAfterSale :: "Env \<Rightarrow> SaleReq \<Rightarrow> Customer \<Rightarrow> Customer" where
  "customerAfterSale env req customer =
     customer\<lparr>c_totalSpent := c_totalSpent customer + (r_sellingPrice req - discountOf req),
              c_totalBikesBought := c_totalBikesBought customer + 1,
              c_lastPurchaseDate := Some (e_now env)\<rparr>"

text \<open>\<open>new Payment({...})\<close>, with the schema's defaults for the fields it leaves out.\<close>

definition newPayment :: "SaleReq \<Rightarrow> oid \<Rightarrow> oid \<Rightarrow> Payment" where
  "newPayment req sid cid =
     \<lparr>p_saleId = sid, p_bikeId = r_bikeId req, p_customerId = cid,
      p_totalAmount = r_sellingPrice req - discountOf req,
      p_paidAmount = r_sellingPrice req - discountOf req,
      p_remainingAmount = 0, p_status = pending,
      p_paymentLogs = [], p_dueDate = None, p_notes = None\<rparr>"

text \<open>\<open>generateInvoicePDF\<close> resolves to the path of the file it wrote.\<close>

definition invoicePathOf :: "Sale \<Rightarrow> string" where
  "invoicePathOf sale = ''/invoices/invoice-'' @ s_invoiceNumber sale @ ''.pdf''"

text \<open>
  The handler. Each \<open>await doc.save()\<close> that rejects leaves the handler through its \<open>catch\<close>
  with the writes made so far in place, and so does a failure to write the invoice file.
  The response is the sale with its id.
\<close>

definition createSale :: "Env \<Rightarrow> Store \<Rightarrow> SaleReq \<Rightarrow> (oid \<times> Sale) response \<times> Store" where
  "createSale env st req =
     (if \<not> saleReq_valid req then (BadRequest ''Invalid input'', st)
      else
        (case map_of (bikes st) (r_bikeId req) of
           None \<Rightarrow> (NotFound ''Bike not found'', st)
         | Some bike \<Rightarrow>
             if b_status bike \<noteq> available
             then (BadRequest ''Bike is not available for sale'', st)
             else
              (case findOrCreateCustomer st (trim (r_buyerName req)) (trim (r_buyerPhone req))
                      (trim (r_buyerAddress req)) of
                 None \<Rightarrow> (ServerError, st)
               | Some (cid, customer, st1) \<Rightarrow>
              (case sale_save st1 (newObjectId st1) (newSale env req bike cid) of
                 None \<Rightarrow> (ServerError, st1)
               | Some (sale, st2) \<Rightarrow>
              (case bike_save env st2 (r_bikeId req)
                      (soldBike env req bike (newObjectId st1)) of
                 None \<Rightarrow> (ServerError, st2)
               | Some (bike1, st3) \<Rightarrow>
              (case customer_save st3 cid (customerAfterSale env req customer) of
                 None \<Rightarrow> (ServerError, st3)
               | Some (customer1, st4) \<Rightarrow>
              if \<not> e_pdfOk env then (ServerError, st4)
              else
              (case sale_save st4 (newObjectId st1)
                      (sale\<lparr>s_invoicePath := Some (invoicePathOf sale)\<rparr>) of
                 None \<Rightarrow> (ServerError, st4)
               | Some (sale2, st5) \<Rightarrow>
              if 0 < r_sellingPrice req - discountOf req
              then
                (case payment_save st5 (newObjectId st5)
                        (newPayment req (newObjectId st1) cid) of
                   None \<Rightarrow> (ServerError, st5)
                 | Some (payment, st6) \<Rightarrow> (Created (newObjectId st1, sale2), st6))
              else (Created (newObjectId st1, sale2), st5))))))))"

section \<open>The payments routes\<close>




text \<open>\<open>router.put('/:id')\<close>: only \<open>dueDate\<close> and \<open>notes\<close> are taken from the body.\<close>

definition updatePayment ::
  "Store \<Rightarrow> oid \<Rightarrow> date option \<Rightarrow> string option \<Rightarrow> Payment response \<times> Store" where
  "updatePayment st pid dueDate notes =
     (case map_of (payments st) pid of
        None \<Rightarrow> (NotFound ''Payment not found'', st)
      | Some payment \<Rightarrow>
          let payment1 = (case dueDate of None \<Rightarrow> payment
                          | Some d \<Rightarrow> payment\<lparr>p_dueDate := Some d\<rparr>);
              payment2 = (case notes of None \<Rightarrow> payment1
                          | Some n \<Rightarrow> payment1\<lparr>p_notes := Some (trim n)\<rparr>)
          in (case payment_save st pid payment2 of
                None \<Rightarrow> (ServerError, st)
              | Some (payment3, st1) \<Rightarrow> (Success payment3, st1)))"

section \<open>The customers routes\<close>

text \<open>
  The body of \<open>POST /\<close> and \<open>PUT /:id\<close>. The validators look at \<open>name\<close>, \<open>phone\<close> and
  \<open>address\<close> only; whatever else the body holds reaches the document through
  \<open>new Customer(req.body)\<close> or \<open>Object.assign(customer, req.body)\<close>. \<open>None\<close> is a field
  the body does not have.
\<close>

record CustomerBody =
  cb_name :: string
  cb_phone :: string
  cb_address :: string
  cb_totalSpent :: "rat option"
  cb_totalBikesBought :: "rat option"
  cb_lastPurchaseDate :: "date option"
  cb_customerType :: "customer_type option"

definition customerBody_valid :: "CustomerBody \<Rightarrow> bool" where
  "customerBody_valid body =
     (notEmpty (trim (cb_name body)) \<and> notEmpty (trim (cb_phone body)) \<and>
      notEmpty (trim (cb_address body)))"

text \<open>\<open>Object.assign(customer, req.body)\<close>, after the sanitizers have trimmed the body.\<close>

definition assignCustomer :: "Customer \<Rightarrow> CustomerBody \<Rightarrow> Customer" where
  "assignCustomer customer body =
     customer\<lparr>c_name := trim (cb_name body),
              c_phone := trim (cb_phone body),
              c_address := trim (cb_address body),
              c_totalSpent := (case cb_totalSpent body of None \<Rightarrow> c_totalSpent customer
                               | Some v \<Rightarrow> v),
              c_totalBikesBought := (case cb_totalBikesBought body of
                                       None \<Rightarrow> c_totalBikesBought customer | Some v \<Rightarrow> v),
              c_lastPurchaseDate := (case cb_lastPurchaseDate body of
                                       None \<Rightarrow> c_lastPurchaseDate customer | Some d \<Rightarrow> Some d),
              c_customerType := (case cb_customerType body of
                                   None \<Rightarrow> c_customerType customer | Some t \<Rightarrow> t)\<rparr>"

text \<open>\<open>router.post('/')\<close>: \<open>new Customer(req.body)\<close> with the schema's defaults.\<close>

definition createCustomer :: "Store \<Rightarrow> CustomerBody \<Rightarrow> (oid \<times> Customer) response \<times> Store" where
  "createCustomer st body =
     (if \<not> customerBody_valid body then (BadRequest ''Invalid input'', st)
      else if list_ex (\<lambda>(i, c). c_phone c = trim (cb_phone body)) (customers st)
      then (BadRequest ''Customer with this phone number already exists'', st)
      else
        let cid = newObjectId st;
            customer = assignCustomer
                         \<lparr>c_name = [], c_phone = [], c_address = [], c_totalSpent = 0,
                          c_totalBikesBought = 0, c_lastPurchaseDate = None,
                          c_customerType = Regular\<rparr> body
        in (case customer_save st cid customer of
              None \<Rightarrow> (ServerError, st)
            | Some (customer1, st1) \<Rightarrow> (Created (cid, customer1), st1)))"


text \<open>\<open>router.delete('/:id')\<close>\<close>

definition deleteCustomer :: "Store \<Rightarrow> oid \<Rightarrow> string response \<times> Store" where
  "deleteCustomer st cid =
     (case map_of (customers st) cid of
        None \<Rightarrow> (NotFound ''Customer not found'', st)
      | Some customer \<Rightarrow>
          let salesCount = length (filter (\<lambda>(i, s). s_customerId s = cid) (sales st))
          in if 0 < salesCount
             then (BadRequest ''Cannot delete customer with existing sales records'', st)
             else (Success ''Customer deleted successfully'',
                   st\<lparr>customers := AList.delete cid (customers st)\<rparr>))"

section \<open>The bikes routes\<close>












section \<open>routes/ai.js: the price suggestion\<close>








section \<open>Example data\<close>

text \<open>
  Scenario A of the specification: a bike bought for 100000 is sold at 130000 with a
  discount of 5000 to a buyer who is not yet a customer. \<open>exStoreSold\<close> is the store after
  that sale. The same buyer then buys a second bike (\<open>exStore2\<close>, \<open>exStore2Sold\<close>).
  \<open>exStoreDue\<close> holds a payment of which 50000 of 125000 have been paid.
\<close>

definition exBike :: Bike where
  "exBike = \<lparr>b_bikeNumber = ''KA01AB1234'', b_brand = ''Honda'', b_model = ''Activa'',
             b_year = 2022, b_buyPrice = 100000, b_sellPrice = None, b_profit = None,
             b_profitPercent = None, b_status = available, b_purchaseDate = 0,
             b_sellDate = None, b_daysToSell = None, b_conditionRating = Some 8,
             b_saleId = None\<rparr>"

definition exStore :: Store where
  "exStore = \<lparr>bikes = [(1, exBike)], customers = [], sales = [], payments = []\<rparr>"

definition exEnv :: Env where
  "exEnv = \<lparr>e_now = 864000000, e_year = 2025, e_month = 3, e_random = 42,
            e_bootYear = 2025, e_pdfOk = True, e_user = 0\<rparr>"

definition exReq :: SaleReq where
  "exReq = \<lparr>r_bikeId = 1, r_buyerName = ''Ravi'', r_buyerPhone = ''9876543210'',
            r_buyerAddress = ''Bengaluru'', r_sellingPrice = 130000,
            r_discount = Some 5000, r_paymentMode = ''Cash''\<rparr>"

definition exSale :: Sale where
  "exSale = \<lparr>s_saleNumber = ''SAL-202503-042'', s_bikeId = 1, s_customerId = 2,
          s_buyerName = ''Ravi'', s_buyerPhone = ''9876543210'',
          s_buyerAddress = ''Bengaluru'', s_sellingPrice = 130000,
          s_discount = 5000, s_finalAmount = 125000, s_profit = 25000,
          s_profitPercent = Fin 25, s_paymentMode = ''Cash'',
          s_invoiceNumber = ''SB-2025-042'',
          s_invoicePath = Some ''/invoices/invoice-SB-2025-042.pdf'',
          s_soldBy = 0\<rparr>"

definition exSoldBike :: Bike where
  "exSoldBike = \<lparr>b_bikeNumber = ''KA01AB1234'', b_brand = ''Honda'',
             b_model = ''Activa'', b_year = 2022, b_buyPrice = 100000,
             b_sellPrice = Some 130000, b_profit = Some 30000,
             b_profitPercent = Some (Fin 30), b_status = sold,
             b_purchaseDate = 0, b_sellDate = Some 864000000,
             b_daysToSell = Some 10, b_conditionRating = Some 8,
             b_saleId = Some 3\<rparr>"

definition exCustomer :: Customer where
  "exCustomer = \<lparr>c_name = ''Ravi'', c_phone = ''9876543210'',
               c_address = ''Bengaluru'', c_totalSpent = 125000,
               c_totalBikesBought = 1, c_lastPurchaseDate = Some 864000000,
               c_customerType = Regular\<rparr>"

definition exPayment :: Payment where
  "exPayment = \<lparr>p_saleId = 3, p_bikeId = 1, p_customerId = 2,
               p_totalAmount = 125000, p_paidAmount = 125000,
               p_remainingAmount = 0, p_status = completed,
               p_paymentLogs = [], p_dueDate = None, p_notes = None\<rparr>"

definition exStoreSold :: Store where
  "exStoreSold = \<lparr>bikes = [(1, exSoldBike)], customers = [(2, exCustomer)],
                   sales = [(3, exSale)], payments = [(4, exPayment)]\<rparr>"





definition exSale2 :: Sale where
  "exSale2 = \<lparr>s_saleNumber = ''SAL-202503-043'', s_bikeId = 5, s_customerId = 2,
          s_buyerName = ''Ravi K'', s_buyerPhone = ''9876543210'',
          s_buyerAddress = ''Mysuru'', s_sellingPrice = 90000,
          s_discount = 0, s_finalAmount = 90000, s_profit = 10000,
          s_profitPercent = Fin (25 / 2), s_paymentMode = ''UPI'',
          s_invoiceNumber = ''SB-2025-043'',
          s_invoicePath = Some ''/invoices/invoice-SB-2025-043.pdf'',
          s_soldBy = 0\<rparr>"

definition exSoldBike2 :: Bike where
  "exSoldBike2 = \<lparr>b_bikeNumber = ''KA05XY7788'', b_brand = ''Honda'',
             b_model = ''Shine'', b_year = 2023, b_buyPrice = 80000,
             b_sellPrice = Some 90000, b_profit = Some 10000,
             b_profitPercent = Some (Fin (25 / 2)), b_status = sold,
             b_purchaseDate = 432000000, b_sellDate = Some 1296000000,
             b_daysToSell = Some 10, b_conditionRating = Some 9,
             b_saleId = Some 6\<rparr>"

definition exCustomer2 :: Customer where
  "exCustomer2 = \<lparr>c_name = ''Ravi'', c_phone = ''9876543210'',
               c_address = ''Bengaluru'', c_totalSpent = 215000,
               c_totalBikesBought = 2, c_lastPurchaseDate = Some 1296000000,
               c_customerType = Premium\<rparr>"

definition exPayment2 :: Payment where
  "exPayment2 = \<lparr>p_saleId = 6, p_bikeId = 5, p_customerId = 2,
               p_totalAmount = 90000, p_paidAmount = 90000,
               p_remainingAmount = 0, p_status = completed,
               p_paymentLogs = [], p_dueDate = None, p_notes = None\<rparr>"

definition exStore2Sold :: Store where
  "exStore2Sold = \<lparr>bikes = [(1, exSoldBike), (5, exSoldBike2)],
                    customers = [(2, exCustomer2)],
                    sales = [(3, exSale), (6, exSale2)],
                    payments = [(4, exPayment), (7, exPayment2)]\<rparr>"


definition exDuePayment :: Payment where
  "exDuePayment = \<lparr>p_saleId = 3, p_bikeId = 1, p_customerId = 2,
               p_totalAmount = 125000, p_paidAmount = 50000,
               p_remainingAmount = 75000, p_status = partial,
               p_paymentLogs = [\<lparr>l_amount = 50000, l_paymentDate = 864000000,
                                  l_paymentMethod = ''Cash'', l_notes = None,
                                  l_receivedBy = 0\<rparr>],
               p_dueDate = None, p_notes = None\<rparr>"

definition exStoreDue :: Store where
  "exStoreDue = \<lparr>bikes = [(1, exSoldBike)], customers = [(2, exCustomer)],
                  sales = [(3, exSale)], payments = [(4, exDuePayment)]\<rparr>"



definition exZeroPayment :: Payment where
  "exZeroPayment = \<lparr>p_saleId = 3, p_bikeId = 1, p_customerId = 2,
               p_totalAmount = 0, p_paidAmount = 0,
               p_remainingAmount = 0, p_status = completed,
               p_paymentLogs = [], p_dueDate = None, p_notes = None\<rparr>"


section \<open>Auxiliary facts about the store\<close>

lemma foldr_max_ge: "x \<in> set xs \<Longrightarrow> x \<le> foldr max xs (0::nat)"
  by (induction xs) (auto simp: max_def)

lemma newObjectId_greater:
  assumes "x \<in> set (map fst (bikes st) @ map fst (customers st) @
                      map fst (sales st) @ map fst (payments st))"
  shows "x < newObjectId st"
  using foldr_max_ge[OF assms] by (simp add: newObjectId_def)



lemma newObjectId_not_payment: "newObjectId st \<notin> fst ` set (payments st)"
  using newObjectId_greater[of "newObjectId st" st] by auto

lemma update_fresh_append: "k \<notin> fst ` set al \<Longrightarrow> AList.update k v al = al @ [(k, v)]"
  by (induction al) auto

lemma find_Some_mem: "find P xs = Some x \<Longrightarrow> x \<in> set xs"
  by (induction xs) (auto split: if_splits)

text \<open>What each \<open>save()\<close> that succeeds has checked, and which collections it leaves alone.\<close>

lemma sale_save_frame:
  "sale_save st sid s = Some (s', st') \<Longrightarrow>
   s' = s \<and> sale_valid s \<and> bikes st' = bikes st \<and> customers st' = customers st \<and>
   payments st' = payments st \<and> sales st' = AList.update sid s (sales st)"
  by (auto simp: sale_save_def split: if_splits)

lemma bike_save_frame:
  "bike_save env st bid b = Some (b', st') \<Longrightarrow>
   b' = bikePreSave b \<and> sales st' = sales st \<and> customers st' = customers st \<and>
   payments st' = payments st \<and> bikes st' = AList.update bid b' (bikes st)"
  by (auto simp: bike_save_def Let_def split: if_splits)

lemma customer_save_frame:
  "customer_save st cid c = Some (c', st') \<Longrightarrow>
   c' = customerPreSave c \<and> customer_valid c \<and> sales st' = sales st \<and> bikes st' = bikes st \<and>
   payments st' = payments st \<and> customers st' = AList.update cid c' (customers st)"
  by (auto simp: customer_save_def Let_def split: if_splits)

lemma payment_save_frame:
  "payment_save st pid p = Some (p', st') \<Longrightarrow>
   p' = paymentPreSave p \<and> payment_valid p \<and> sales st' = sales st \<and> bikes st' = bikes st \<and>
   customers st' = customers st \<and> payments st' = AList.update pid p' (payments st)"
  by (auto simp: payment_save_def Let_def split: if_splits)

lemma sale_save_same: "sale_save st sid s = Some (s', st') \<Longrightarrow> s' = s"
  by (simp add: sale_save_frame)

lemma payment_save_same: "payment_save st pid p = Some (p', st') \<Longrightarrow> p' = paymentPreSave p"
  by (simp add: payment_save_frame)

text \<open>
  The customer of a sale is either a stored one, and then the store is untouched, or a new
  document with both aggregates at 0 under a new id.
\<close>

lemma findOrCreateCustomer_frame:
  assumes "findOrCreateCustomer st name phone address = Some (cid, customer, st1)"
  shows "bikes st1 = bikes st \<and> sales st1 = sales st \<and> payments st1 = payments st \<and>
         ((customers st1 = customers st \<and> (cid, customer) \<in> set (customers st)) \<or>
          (cid = newObjectId st \<and> customers st1 = AList.update cid customer (customers st) \<and>
           c_totalSpent customer = 0 \<and> c_totalBikesBought customer = 0))"
proof (cases "find (\<lambda>(i, c). c_phone c = phone) (customers st)")
  case None
  then show ?thesis
    using assms
    by (auto simp: findOrCreateCustomer_def Let_def customerPreSave_def
             split: option.splits dest!: customer_save_frame)
next
  case (Some found)
  then have mem: "found \<in> set (customers st)"
    by (rule find_Some_mem)
  obtain i c where found: "found = (i, c)"
    by (cases found)
  show ?thesis
    using assms Some mem found by (simp add: findOrCreateCustomer_def)
qed

section \<open>The sale workflow, step by step\<close>

text \<open>
  A response 201 means that every step of the handler went through: the lemma names the
  intermediate stores.
\<close>

lemma createSale_Created_inv:
  assumes "createSale env st req = (Created (sid, sale), st')"
  shows "\<exists>bike cid customer st1 st2 bike1 st3 customer1 st4 st5.
     saleReq_valid req \<and>
     map_of (bikes st) (r_bikeId req) = Some bike \<and> b_status bike = available \<and>
     findOrCreateCustomer st (trim (r_buyerName req)) (trim (r_buyerPhone req))
        (trim (r_buyerAddress req)) = Some (cid, customer, st1) \<and>
     sid = newObjectId st1 \<and>
     sale_save st1 sid (newSale env req bike cid) = Some (newSale env req bike cid, st2) \<and>
     bike_save env st2 (r_bikeId req) (soldBike env req bike sid) = Some (bike1, st3) \<and>
     customer_save st3 cid (customerAfterSale env req customer) = Some (customer1, st4) \<and>
     e_pdfOk env \<and>
     sale = (newSale env req bike cid)
              \<lparr>s_invoicePath := Some (invoicePathOf (newSale env req bike cid))\<rparr> \<and>
     sale_save st4 sid sale = Some (sale, st5) \<and>
     (if 0 < r_sellingPrice req - discountOf req
      then payment_save st5 (newObjectId st5) (newPayment req sid cid)
             = Some (paymentPreSave (newPayment req sid cid), st')
      else st' = st5)"
proof -
  have v: "saleReq_valid req"
    using assms by (auto simp: createSale_def split: if_splits)
  obtain bike where b: "map_of (bikes st) (r_bikeId req) = Some bike"
    using assms v by (cases "map_of (bikes st) (r_bikeId req)") (auto simp: createSale_def)
  have a: "b_status bike = available"
    using assms v b by (auto simp: createSale_def split: if_splits)
  obtain cid customer st1 where
    f: "findOrCreateCustomer st (trim (r_buyerName req)) (trim (r_buyerPhone req))
          (trim (r_buyerAddress req)) = Some (cid, customer, st1)"
    using assms v b a
    by (cases "findOrCreateCustomer st (trim (r_buyerName req)) (trim (r_buyerPhone req))
          (trim (r_buyerAddress req))") (auto simp: createSale_def)
  obtain sale1 st2 where
    s1: "sale_save st1 (newObjectId st1) (newSale env req bike cid) = Some (sale1, st2)"
    using assms v b a f
    by (cases "sale_save st1 (newObjectId st1) (newSale env req bike cid)")
       (auto simp: createSale_def)
  have sale1: "sale1 = newSale env req bike cid"
    using s1 by (rule sale_save_same)
  obtain bike1 st3 where
    b1: "bike_save env st2 (r_bikeId req) (soldBike env req bike (newObjectId st1))
           = Some (bike1, st3)"
    using assms v b a f s1
    by (cases "bike_save env st2 (r_bikeId req) (soldBike env req bike (newObjectId st1))")
       (auto simp: createSale_def)
  obtain customer1 st4 where
    c1: "customer_save st3 cid (customerAfterSale env req customer) = Some (customer1, st4)"
    using assms v b a f s1 b1
    by (cases "customer_save st3 cid (customerAfterSale env req customer)")
       (auto simp: createSale_def)
  have pdf: "e_pdfOk env"
    using assms v b a f s1 b1 c1 by (auto simp: createSale_def split: if_splits)
  obtain sale2 st5 where
    s2: "sale_save st4 (newObjectId st1) (sale1\<lparr>s_invoicePath := Some (invoicePathOf sale1)\<rparr>)
           = Some (sale2, st5)"
    using assms v b a f s1 b1 c1 pdf
    by (cases "sale_save st4 (newObjectId st1)
                 (sale1\<lparr>s_invoicePath := Some (invoicePathOf sale1)\<rparr>)")
       (auto simp: createSale_def)
  have sale2: "sale2 = sale1\<lparr>s_invoicePath := Some (invoicePathOf sale1)\<rparr>"
    using s2 by (rule sale_save_same)
  have res: "sid = newObjectId st1 \<and> sale = sale2 \<and>
     (if 0 < r_sellingPrice req - discountOf req
      then \<exists>payment. payment_save st5 (newObjectId st5) (newPayment req (newObjectId st1) cid)
             = Some (payment, st')
      else st' = st5)"
    using assms v b a f s1 b1 c1 pdf s2
    by (auto simp: createSale_def split: if_splits option.splits)
  show ?thesis
  proof (cases "0 < r_sellingPrice req - discountOf req")
    case True
    then obtain payment where
      p: "payment_save st5 (newObjectId st5) (newPayment req (newObjectId st1) cid)
            = Some (payment, st')"
      using res by auto
    have "payment = paymentPreSave (newPayment req (newObjectId st1) cid)"
      using p by (rule payment_save_same)
    then show ?thesis
      using v b a f s1 b1 c1 pdf s2 res sale1 sale2 p True by auto
  next
    case False
    then show ?thesis
      using v b a f s1 b1 c1 pdf s2 res sale1 sale2 by auto
  qed
qed





text \<open>The two example sales, evaluated.\<close>

lemma createSale_example:
  "createSale exEnv exStore exReq = (Created (3, exSale), exStoreSold)"
  by code_simp


section \<open>The sale record (C1)\<close>

text \<open>
  Whatever the response, the sales collection is the old one or holds, under a new id,
  the document the handler built, with or without its invoice path.
\<close>

lemma createSale_sales:
  assumes "createSale env st req = (rsp, st')"
  shows "sales st' = sales st \<or>
         (\<exists>bike cid customer st1.
            map_of (bikes st) (r_bikeId req) = Some bike \<and>
            findOrCreateCustomer st (trim (r_buyerName req)) (trim (r_buyerPhone req))
              (trim (r_buyerAddress req)) = Some (cid, customer, st1) \<and>
            (sales st' = AList.update (newObjectId st1) (newSale env req bike cid) (sales st) \<or>
             sales st' = AList.update (newObjectId st1)
                           ((newSale env req bike cid)
                              \<lparr>s_invoicePath := Some (invoicePathOf (newSale env req bike cid))\<rparr>)
                           (sales st)))"
  using assms
  unfolding createSale_def
  by (auto split: if_splits option.splits prod.splits
           dest!: sale_save_frame bike_save_frame customer_save_frame payment_save_frame
                  findOrCreateCustomer_frame)

lemma newSale_fields:
  assumes "sale = newSale env req bike cid \<or>
           sale = (newSale env req bike cid)\<lparr>s_invoicePath := path\<rparr>"
  shows "s_bikeId sale = r_bikeId req \<and>
         s_sellingPrice sale = r_sellingPrice req \<and>
         s_discount sale = discountOf req \<and>
         s_finalAmount sale = s_sellingPrice sale - s_discount sale \<and>
         s_profit sale = s_sellingPrice sale - s_discount sale - b_buyPrice bike \<and>
         s_profitPercent sale = js_times (js_div (s_profit sale) (b_buyPrice bike)) 100 \<and>
         (b_buyPrice bike \<noteq> 0 \<longrightarrow>
            s_profitPercent sale = Fin (s_profit sale / b_buyPrice bike * 100))"
  using assms by (auto simp: newSale_def Let_def js_div_def)

text \<open>
  Claim C1. For every successfully created sale, the persisted Sale record satisfies
  \<open>finalAmount = sellingPrice - discount\<close>, \<open>profit = sellingPrice - discount - buyPrice\<close>
  and \<open>profitPercent = profit / buyPrice * 100\<close>, where \<open>buyPrice\<close> is the buy price of the
  referenced bike as stored when the request arrived. This holds of the sale that a
  response 201 returns, which is the record stored under the returned id and so the one a
  later fetch by id finds, and of any record that the request has added to the sales
  collection even when a later step failed. The division is JavaScript's; for a buy price
  other than zero it is the finite quotient.
\<close>

theorem createSale_sale_fields:
  assumes "createSale env st req = (rsp, st')"
      and "map_of (bikes st) (r_bikeId req) = Some bike"
      and "rsp = Created (sid, sale) \<or>
           (map_of (sales st') sid = Some sale \<and> map_of (sales st) sid \<noteq> Some sale)"
  shows "map_of (sales st') sid = Some sale \<and>
         s_bikeId sale = r_bikeId req \<and>
         s_sellingPrice sale = r_sellingPrice req \<and>
         s_discount sale = discountOf req \<and>
         s_finalAmount sale = s_sellingPrice sale - s_discount sale \<and>
         s_profit sale = s_sellingPrice sale - s_discount sale - b_buyPrice bike \<and>
         s_profitPercent sale = js_times (js_div (s_profit sale) (b_buyPrice bike)) 100 \<and>
         (b_buyPrice bike \<noteq> 0 \<longrightarrow>
            s_profitPercent sale = Fin (s_profit sale / b_buyPrice bike * 100))"
  using assms(3)
proof
  assume created: "rsp = Created (sid, sale)"
  from createSale_Created_inv[OF assms(1)[unfolded created]] assms(2)
  obtain cid st4 st5 where
    sale: "sale = (newSale env req bike cid)
                    \<lparr>s_invoicePath := Some (invoicePathOf (newSale env req bike cid))\<rparr>"
    and s2: "sale_save st4 sid sale = Some (sale, st5)"
    and p: "if 0 < r_sellingPrice req - discountOf req
      then payment_save st5 (newObjectId st5) (newPayment req sid cid)
             = Some (paymentPreSave (newPayment req sid cid), st')
      else st' = st5"
    by auto
  have "sales st' = sales st5"
    using p by (auto split: if_splits dest: payment_save_frame)
  moreover have "sales st5 = AList.update sid sale (sales st4)"
    using s2 by (simp add: sale_save_frame)
  ultimately have stored: "map_of (sales st') sid = Some sale"
    by (simp add: update_conv')
  show ?thesis
    using stored newSale_fields[of sale env req bike cid] sale by blast
next
  assume new: "map_of (sales st') sid = Some sale \<and> map_of (sales st) sid \<noteq> Some sale"
  then have changed: "sales st' \<noteq> sales st"
    by auto
  with createSale_sales[OF assms(1)] assms(2)
  obtain cid st1 doc where
    doc: "doc = newSale env req bike cid \<or>
          doc = (newSale env req bike cid)
                  \<lparr>s_invoicePath := Some (invoicePathOf (newSale env req bike cid))\<rparr>"
    and upd: "sales st' = AList.update (newObjectId st1) doc (sales st)"
    by auto
  have "sale = doc"
    using new upd by (auto simp: update_conv' split: if_splits)
  then show ?thesis
    using new newSale_fields[of sale env req bike cid] doc by blast
qed

theorem createSale_sale_fields_witness:
  "createSale exEnv exStore exReq = (Created (3, exSale), exStoreSold) \<and>
   map_of (bikes exStore) (r_bikeId exReq) = Some exBike \<and>
   map_of (sales exStoreSold) 3 = Some exSale \<and>
   s_finalAmount exSale = 130000 - 5000 \<and>
   s_profit exSale = 130000 - 5000 - 100000 \<and>
   s_profitPercent exSale = Fin 25"
proof -
  have b: "map_of (bikes exStore) (r_bikeId exReq) = Some exBike"
    by (simp add: exStore_def exReq_def)
  have c: "Created (3, exSale) = Created (3, exSale) \<or>
           (map_of (sales exStoreSold) 3 = Some exSale \<and>
            map_of (sales exStore) 3 \<noteq> Some exSale)"
    by simp
  show ?thesis
    using createSale_sale_fields[OF createSale_example b c] createSale_example b
    by (simp add: exSale_def)
qed

section \<open>The payment a sale creates (C2)\<close>

text \<open>
  Claim C2. When the sale workflow completes for a sale whose final amount
  \<open>sellingPrice - discount\<close> is strictly positive, it has appended exactly one Payment
  record, under a new id, with \<open>totalAmount = paidAmount = finalAmount\<close>,
  \<open>remainingAmount = 0\<close> and the derived status \<open>completed\<close>; for a final amount of 0 the
  payments collection is unchanged. (A sale that has been stored has a final amount that
  is not negative.)
\<close>

theorem createSale_payment:
  assumes "createSale env st req = (Created (sid, sale), st')"
  shows "(0 < s_finalAmount sale \<longrightarrow>
            (\<exists>pid p. payments st' = payments st @ [(pid, p)] \<and>
                     pid \<notin> fst ` set (payments st) \<and>
                     p_saleId p = sid \<and> p_bikeId p = s_bikeId sale \<and>
                     p_customerId p = s_customerId sale \<and>
                     p_totalAmount p = s_finalAmount sale \<and>
                     p_paidAmount p = s_finalAmount sale \<and>
                     p_remainingAmount p = 0 \<and> p_status p = completed \<and>
                     p_paymentLogs p = [])) \<and>
         (s_finalAmount sale = 0 \<longrightarrow> payments st' = payments st) \<and>
         0 \<le> s_finalAmount sale"
proof -
  from createSale_Created_inv[OF assms]
  obtain bike cid customer st1 st2 bike1 st3 customer1 st4 st5 where
    f: "findOrCreateCustomer st (trim (r_buyerName req)) (trim (r_buyerPhone req))
        (trim (r_buyerAddress req)) = Some (cid, customer, st1)"
    and s1: "sale_save st1 sid (newSale env req bike cid) = Some (newSale env req bike cid, st2)"
    and b1: "bike_save env st2 (r_bikeId req) (soldBike env req bike sid) = Some (bike1, st3)"
    and c1: "customer_save st3 cid (customerAfterSale env req customer) = Some (customer1, st4)"
    and sale: "sale = (newSale env req bike cid)
                        \<lparr>s_invoicePath := Some (invoicePathOf (newSale env req bike cid))\<rparr>"
    and s2: "sale_save st4 sid sale = Some (sale, st5)"
    and p: "if 0 < r_sellingPrice req - discountOf req
      then payment_save st5 (newObjectId st5) (newPayment req sid cid)
             = Some (paymentPreSave (newPayment req sid cid), st')
      else st' = st5"
    by blast
  have fin: "s_finalAmount sale = r_sellingPrice req - discountOf req"
    and ids: "s_bikeId sale = r_bikeId req" "s_customerId sale = cid"
    by (simp_all add: sale newSale_def Let_def)
  have nonneg: "0 \<le> s_finalAmount sale"
    using sale_save_frame[OF s2] by (simp add: sale_valid_def)
  have pay5: "payments st5 = payments st"
    using findOrCreateCustomer_frame[OF f] sale_save_frame[OF s1] bike_save_frame[OF b1]
          customer_save_frame[OF c1] sale_save_frame[OF s2] by simp
  show ?thesis
  proof (cases "0 < r_sellingPrice req - discountOf req")
    case True
    then have ps: "payment_save st5 (newObjectId st5) (newPayment req sid cid)
             = Some (paymentPreSave (newPayment req sid cid), st')"
      using p by simp
    have fresh: "newObjectId st5 \<notin> fst ` set (payments st)"
      using newObjectId_not_payment[of st5] pay5 by simp
    have "payments st' = payments st @ [(newObjectId st5, paymentPreSave (newPayment req sid cid))]"
      using payment_save_frame[OF ps] pay5 fresh by (simp add: update_fresh_append)
    moreover have "p_status (paymentPreSave (newPayment req sid cid)) = completed"
      using True by (simp add: paymentPreSave_def newPayment_def Let_def)
    ultimately show ?thesis
      using fresh fin ids nonneg True
      by (auto simp: paymentPreSave_def newPayment_def Let_def)
  next
    case False
    then show ?thesis using p pay5 fin nonneg by auto
  qed
qed

theorem createSale_payment_witness:
  "createSale exEnv exStore exReq = (Created (3, exSale), exStoreSold) \<and>
   0 < s_finalAmount exSale \<and>
   payments exStoreSold = payments exStore @ [(4, exPayment)] \<and>
   p_totalAmount exPayment = s_finalAmount exSale \<and>
   p_paidAmount exPayment = s_finalAmount exSale \<and>
   p_remainingAmount exPayment = 0 \<and> p_status exPayment = completed"
  using createSale_payment[OF createSale_example] createSale_example
  by (simp add: exSale_def exStoreSold_def exStore_def exPayment_def)

section \<open>The bike after its sale (C3)\<close>

text \<open>
  The handler assigns the discounted profit to the bike, and \<open>bike.save()\<close> then runs the
  schema's hook, which assigns \<open>sellPrice - buyPrice\<close> whenever both prices are non-zero.
\<close>

lemma soldBike_saved_profit:
  assumes "r_sellingPrice req \<noteq> 0" and "b_buyPrice bike \<noteq> 0"
  shows "b_profit (bikePreSave (soldBike env req bike sid))
           = Some (r_sellingPrice req - b_buyPrice bike)"
  using assms by (simp add: bikePreSave_def soldBike_def Let_def)

text \<open>
  Claim C3 says that after the workflow the Bike record stores the profit and the profit
  percentage computed for the sale (\<open>sellingPrice - discount - buyPrice\<close>), with
  \<open>sellPrice = sellingPrice\<close>, status \<open>sold\<close>, \<open>sellDate\<close> set and \<open>saleId\<close> naming the sale,
  so that a bike bought at 100000 and sold at 130000 with discount 5000 stores profit
  25000 and 25 percent. Evaluated on exactly that sale, the handler stores 25000 and 25
  percent on the Sale, but 30000 and 30 percent on the Bike; the other four fields are as
  claimed.
\<close>

theorem createSale_bike_profit_scenarioA:
  "createSale exEnv exStore exReq = (Created (3, exSale), exStoreSold) \<and>
   b_buyPrice exBike = 100000 \<and> r_sellingPrice exReq = 130000 \<and>
   r_discount exReq = Some 5000 \<and>
   s_profit exSale = 25000 \<and> s_profitPercent exSale = Fin 25 \<and>
   map_of (bikes exStoreSold) 1 = Some exSoldBike \<and>
   b_profit exSoldBike = Some 30000 \<and> b_profitPercent exSoldBike = Some (Fin 30) \<and>
   b_sellPrice exSoldBike = Some 130000 \<and> b_status exSoldBike = sold \<and>
   b_sellDate exSoldBike = Some (e_now exEnv) \<and> b_saleId exSoldBike = Some 3"
  using createSale_example
  by (simp add: exSale_def exStoreSold_def exSoldBike_def exBike_def exReq_def exEnv_def)

section \<open>The customer's running aggregates (C4)\<close>




section \<open>Selling a bike that is not available (C5)\<close>

text \<open>
  Claim C5. A sale request that names a stored bike whose status is not \<open>available\<close> is
  answered with an error and changes nothing: no sale is stored, no customer is created or
  changed, and the bike is as it was (the whole store is the one before the request).
\<close>

theorem createSale_unavailable:
  assumes "map_of (bikes st) (r_bikeId req) = Some bike" and "b_status bike \<noteq> available"
  shows "is_error (fst (createSale env st req)) \<and> snd (createSale env st req) = st"
  using assms by (simp add: createSale_def is_error_def)

theorem createSale_unavailable_witness:
  "map_of (bikes exStoreSold) (r_bikeId exReq) = Some exSoldBike \<and>
   b_status exSoldBike \<noteq> available \<and>
   is_error (fst (createSale exEnv exStoreSold exReq)) \<and>
   snd (createSale exEnv exStoreSold exReq) = exStoreSold"
proof -
  have b: "map_of (bikes exStoreSold) (r_bikeId exReq) = Some exSoldBike"
    by (simp add: exStoreSold_def exReq_def)
  have s: "b_status exSoldBike \<noteq> available"
    by (simp add: exSoldBike_def)
  show ?thesis
    using createSale_unavailable[OF b s, of exEnv] b s by simp
qed

section \<open>Recording a payment (C6)\<close>




section \<open>The derived fields of a payment (C7)\<close>

text \<open>
  Claim C7 says that after every save the status is \<open>completed\<close> if and only if
  \<open>paidAmount = totalAmount\<close> (and \<open>pending\<close> if and only if \<open>paidAmount = 0\<close>). A payment
  with total 0 and nothing paid passes the schema and is saved as \<open>pending\<close>, with
  \<open>paidAmount = totalAmount\<close>, whatever status the caller supplied.
\<close>

theorem payment_save_zero_total:
  "payment_valid exZeroPayment \<and>
   map_option (p_status \<circ> fst) (payment_save exStore 4 exZeroPayment) = Some pending \<and>
   map_option (p_paidAmount \<circ> fst) (payment_save exStore 4 exZeroPayment) = Some 0 \<and>
   map_option (p_totalAmount \<circ> fst) (payment_save exStore 4 exZeroPayment) = Some 0"
  by (simp add: payment_save_def payment_valid_def paymentPreSave_def exZeroPayment_def Let_def)

text \<open>
  Claim C7, amended. On every save of a Payment record that succeeds, the persisted record
  keeps \<open>totalAmount\<close> and \<open>paidAmount\<close> and has \<open>remainingAmount = totalAmount - paidAmount\<close>;
  its status is \<open>pending\<close> iff \<open>paidAmount = 0\<close>, \<open>partial\<close> iff
  \<open>0 < paidAmount < totalAmount\<close>, and \<open>completed\<close> iff \<open>paidAmount\<close> is not 0 and is
  at least \<open>totalAmount\<close>, which is \<open>paidAmount = totalAmount\<close> whenever the total is
  positive and not overpaid; all this regardless of the \<open>remainingAmount\<close> and status the
  caller supplied.
\<close>

theorem payment_save_derived:
  assumes "payment_save st pid p = Some (p', st')"
  shows "map_of (payments st') pid = Some p' \<and>
         p_totalAmount p' = p_totalAmount p \<and> p_paidAmount p' = p_paidAmount p \<and>
         p_remainingAmount p' = p_totalAmount p' - p_paidAmount p' \<and>
         (p_status p' = pending \<longleftrightarrow> p_paidAmount p' = 0) \<and>
         (p_status p' = partial \<longleftrightarrow> 0 < p_paidAmount p' \<and> p_paidAmount p' < p_totalAmount p') \<and>
         (p_status p' = completed \<longleftrightarrow> p_paidAmount p' \<noteq> 0 \<and> p_totalAmount p' \<le> p_paidAmount p') \<and>
         (0 < p_totalAmount p' \<and> p_paidAmount p' \<le> p_totalAmount p' \<longrightarrow>
            (p_status p' = completed \<longleftrightarrow> p_paidAmount p' = p_totalAmount p'))"
  using assms
  by (auto simp: payment_save_def payment_valid_def paymentPreSave_def Let_def update_conv'
           split: if_splits)

theorem payment_save_derived_witness:
  "payment_save exStoreSold 4 (exDuePayment\<lparr>p_remainingAmount := 0, p_status := completed\<rparr>)
     = Some (exDuePayment, exStoreDue) \<and>
   p_remainingAmount exDuePayment = p_totalAmount exDuePayment - p_paidAmount exDuePayment \<and>
   p_status exDuePayment = partial"
proof -
  have s: "payment_save exStoreSold 4 (exDuePayment\<lparr>p_remainingAmount := 0, p_status := completed\<rparr>)
     = Some (exDuePayment, exStoreDue)"
    by (simp add: payment_save_def payment_valid_def paymentPreSave_def Let_def
                  exDuePayment_def exStoreSold_def exStoreDue_def paymentLog_valid_def
                  paymentModes_def)
  show ?thesis
    using payment_save_derived[OF s] s by (simp add: exDuePayment_def)
qed

section \<open>The customer tier (C8)\<close>

text \<open>
  Claim C8. On every save of a Customer record that succeeds, the persisted record keeps
  \<open>totalSpent\<close> and has \<open>customerType = VIP\<close> iff \<open>totalSpent >= 500000\<close>, \<open>Premium\<close> iff
  \<open>200000 <= totalSpent < 500000\<close>, and \<open>Regular\<close> otherwise; the type the document had
  before the save plays no part, so the tier is recomputed also when \<open>totalSpent\<close> did not
  change.
\<close>

theorem customer_save_type:
  assumes "customer_save st cid c = Some (c', st')"
  shows "map_of (customers st') cid = Some c' \<and>
         c_totalSpent c' = c_totalSpent c \<and>
         (c_customerType c' = VIP \<longleftrightarrow> 500000 \<le> c_totalSpent c') \<and>
         (c_customerType c' = Premium \<longleftrightarrow>
            200000 \<le> c_totalSpent c' \<and> c_totalSpent c' < 500000) \<and>
         (c_customerType c' = Regular \<longleftrightarrow> c_totalSpent c' < 200000)"
  using assms
  by (auto simp: customer_save_def customerPreSave_def Let_def update_conv' split: if_splits)

theorem customer_save_type_witness:
  "customer_save exStore2Sold 2 (exCustomer2\<lparr>c_customerType := Regular\<rparr>)
     = Some (exCustomer2, exStore2Sold) \<and>
   c_totalSpent exCustomer2 = 215000 \<and> c_customerType exCustomer2 = Premium"
proof -
  have s: "customer_save exStore2Sold 2 (exCustomer2\<lparr>c_customerType := Regular\<rparr>)
     = Some (exCustomer2, exStore2Sold)"
    by code_simp
  show ?thesis
    using customer_save_type[OF s] s by (simp add: exCustomer2_def)
qed

section \<open>The price suggestion (C9)\<close>




section \<open>Sold bikes and the bikes API (C10)\<close>





end
